theory Spec2Isabelle
  imports Main
begin

section \<open>JavaScript values, errors and promises\<close>

text \<open>
  The ledger of \<^verbatim>\<open>src/src/blockchain.js\<close> is a JavaScript class whose methods all
  return promises. A promise is modelled by the way it ends: it is resolved with a value,
  rejected with a reason, or it never settles. The last case arises when an
  \<^verbatim>\<open>async\<close> function is used as the executor of \<^verbatim>\<open>new Promise\<close>: an
  exception thrown inside such an executor rejects the promise of the executor itself,
  which nobody holds, and neither \<^verbatim>\<open>resolve\<close> nor \<^verbatim>\<open>reject\<close> of the outer
  promise is ever called. The exception is kept in the constructor for reference.
\<close>

datatype js_error = Error string | TypeError string | ReferenceError string

fun err_message :: "js_error \<Rightarrow> string" where
  "err_message (Error m) = m"
| "err_message (TypeError m) = m"
| "err_message (ReferenceError m) = m"

text \<open>
  The code rejects both with plain strings (\<^verbatim>\<open>reject("...")\<close>) and with error
  objects (\<^verbatim>\<open>reject(new Error(...))\<close>).
\<close>

datatype reason = Str string | Exn js_error

text \<open>
  \<^verbatim>\<open>err.message\<close> inside a template literal: a string has no such property, and
  \<^verbatim>\<open>undefined\<close> is rendered as the text "undefined".
\<close>

fun reason_message :: "reason \<Rightarrow> string" where
  "reason_message (Str s) = ''undefined''"
| "reason_message (Exn e) = err_message e"

datatype 'a promise = Resolved 'a | Rejected reason | NeverSettles js_error

text \<open>
  Numbers: the only arithmetic of the code is the difference of two second counts and
  its comparison with 300, so a JavaScript number is modelled as an integer or
  \<^verbatim>\<open>NaN\<close>. The clock is far below \<open>2^53\<close>; a parsed time beyond that bound is
  rounded by JavaScript, which moves it across no bound that the comparison can see.
\<close>

datatype jsnum = NaN | Num int

fun js_minus :: "jsnum \<Rightarrow> jsnum \<Rightarrow> jsnum" where
  "js_minus (Num a) (Num b) = Num (a - b)"
| "js_minus _ _ = NaN"

text \<open>Every comparison with \<^verbatim>\<open>NaN\<close> is false.\<close>

fun js_gt :: "jsnum \<Rightarrow> jsnum \<Rightarrow> bool" where
  "js_gt (Num a) (Num b) = (a > b)"
| "js_gt _ _ = False"

section \<open>Strings: split, parseInt and the clock\<close>

text \<open>\<^verbatim>\<open>message.split(":")\<close>: always at least one field.\<close>

fun split_colon :: "string \<Rightarrow> string list" where
  "split_colon [] = [[]]"
| "split_colon (c # cs) =
     (if c = CHR '':'' then [] # split_colon cs
      else (case split_colon cs of
              [] \<Rightarrow> [[c]]
            | t # ts \<Rightarrow> (c # t) # ts))"

text \<open>
  \<^verbatim>\<open>tokens[1]\<close>: reading an array out of range does not throw in JavaScript, it
  yields \<^verbatim>\<open>undefined\<close> (here \<open>None\<close>).
\<close>

definition js_index :: "'a list \<Rightarrow> nat \<Rightarrow> 'a option" where
  "js_index xs i = (if i < length xs then Some (xs ! i) else None)"

definition digit_of :: "char \<Rightarrow> nat option" where
  "digit_of c =
     (let n = (of_char c :: nat) in
      if 48 \<le> n \<and> n \<le> 57 then Some (n - 48)
      else if 97 \<le> n \<and> n \<le> 122 then Some (n - 87)
      else if 65 \<le> n \<and> n \<le> 90 then Some (n - 55)
      else None)"

definition in_radix :: "nat \<Rightarrow> char \<Rightarrow> bool" where
  "in_radix r c = (case digit_of c of None \<Rightarrow> False | Some d \<Rightarrow> d < r)"

definition digits_value :: "nat \<Rightarrow> string \<Rightarrow> nat" where
  "digits_value r ds = foldl (\<lambda>acc c. acc * r + (case digit_of c of None \<Rightarrow> 0 | Some d \<Rightarrow> d)) 0 ds"

text \<open>White space of the one-byte code units: TAB, LF, VT, FF, CR, SP and NBSP.\<close>

definition is_ws :: "char \<Rightarrow> bool" where
  "is_ws c = ((of_char c :: nat) \<in> {9, 10, 11, 12, 13, 32, 160})"

text \<open>
  \<^verbatim>\<open>parseInt(s)\<close> with no radix: leading white space is skipped, a sign is read,
  a \<^verbatim>\<open>0x\<close> prefix selects radix 16, and the longest prefix of digits is the value;
  with no digit at all the result is \<^verbatim>\<open>NaN\<close>. Anything after the digits is ignored.
\<close>

definition parseInt_str :: "string \<Rightarrow> jsnum" where
  "parseInt_str s =
     (let s1 = dropWhile is_ws s;
          sign = (case s1 of [] \<Rightarrow> (1::int) | c # _ \<Rightarrow> if c = CHR ''-'' then - 1 else 1);
          s2 = (case s1 of [] \<Rightarrow> [] | c # r \<Rightarrow> if c = CHR ''-'' \<or> c = CHR ''+'' then r else s1);
          hex = (case s2 of
                   a # b # _ \<Rightarrow> a = CHR ''0'' \<and> (b = CHR ''x'' \<or> b = CHR ''X'')
                 | _ \<Rightarrow> False);
          radix = (if hex then 16 else 10);
          s3 = (if hex then drop 2 s2 else s2);
          ds = takeWhile (in_radix radix) s3
      in if ds = [] then NaN else Num (sign * int (digits_value radix ds)))"

text \<open>
  \<^verbatim>\<open>parseInt\<close> applies \<^verbatim>\<open>ToString\<close> to its argument first, so
  \<^verbatim>\<open>parseInt(undefined)\<close> parses the text "undefined".
\<close>

definition parseInt :: "string option \<Rightarrow> jsnum" where
  "parseInt v = (case v of None \<Rightarrow> parseInt_str ''undefined'' | Some s \<Rightarrow> parseInt_str s)"

text \<open>\<^verbatim>\<open>n.toString()\<close> of a non-negative integer: its decimal digits.\<close>

definition digit_char :: "nat \<Rightarrow> char" where
  "digit_char d = ''0123456789'' ! d"

fun dec :: "nat \<Rightarrow> string" where
  "dec n = (if n < 10 then [digit_char n] else dec (n div 10) @ [digit_char (n mod 10)])"

declare dec.simps [simp del]

text \<open>
  \<^verbatim>\<open>new Date().getTime().toString().slice(0, -3)\<close>: the clock is read in
  milliseconds, printed, and the last three characters are cut off. The clock reading
  \<open>ms\<close> is an input of every operation that reads the time.
\<close>

definition currentTime_string :: "nat \<Rightarrow> string" where
  "currentTime_string ms = (let s = dec ms in take (length s - 3) s)"

text \<open>
  \<^verbatim>\<open>currentTime - time\<close> converts the string \<^verbatim>\<open>currentTime\<close> to a number.
  The conversion is modelled on what the clock can produce: the empty string is 0, a
  string of decimal digits is its value, and anything else is \<^verbatim>\<open>NaN\<close>.
\<close>

definition ToNumber :: "string \<Rightarrow> jsnum" where
  "ToNumber s =
     (if s = [] then Num 0
      else if list_all (in_radix 10) s then Num (int (digits_value 10 s))
      else NaN)"

section \<open>Blocks\<close>

text \<open>
  The decoded form of a block's payload: \<^verbatim>\<open>{data: "Genesis Block"}\<close> for the
  genesis block and \<^verbatim>\<open>{star, owner}\<close> for a submission. The star itself is opaque.
\<close>

datatype BData = GenesisData string | StarData string string

text \<open>\<^verbatim>\<open>data.owner\<close>: \<^verbatim>\<open>undefined\<close> on an object without that property.\<close>

fun owner :: "BData \<Rightarrow> string option" where
  "owner (GenesisData d) = None"
| "owner (StarData star own) = Some own"

text \<open>
  Modelled from the spec: the class \<^verbatim>\<open>Block\<close> of \<^verbatim>\<open>block.js\<close> is not among the
  sources. The stored payload is an opaque encoding: it is either the encoding of a
  structured value, which decodes to that value again (the round trip of section 8 of
  the spec), or bytes that are not validly encoded.
\<close>

datatype body = Encoded BData | Undecodable string

record Block =
  hash :: "string option"
  height :: int
  body :: body
  time :: string
  previousBlockHash :: "string option"

text \<open>
  Modelled from the spec: \<^verbatim>\<open>new BlockClass.Block(data)\<close> (missing
  \<^verbatim>\<open>block.js\<close>). The payload is encoded, the hash is absent (\<^verbatim>\<open>null\<close>) until
  the block is sealed, and the previous hash starts as the empty sentinel. Height and time
  are overwritten by the append before the block is used.
\<close>

definition new_Block :: "BData \<Rightarrow> Block" where
  "new_Block d = \<lparr>hash = None, height = 0, body = Encoded d, time = ''0'', previousBlockHash = None\<rparr>"

text \<open>
  Modelled from the spec: \<^verbatim>\<open>block.validate()\<close> (missing \<^verbatim>\<open>block.js\<close>)
  recomputes the hash over the current fields with the stored hash excluded and answers
  whether it equals the stored hash. The parameter \<open>D\<close> stands for
  \<^verbatim>\<open>SHA256(JSON.stringify(block)).toString()\<close>, an external primitive.
\<close>

definition validate :: "(Block \<Rightarrow> string) \<Rightarrow> Block \<Rightarrow> bool" where
  "validate D b = (hash b = Some (D (b\<lparr>hash := None\<rparr>)))"

text \<open>
  Modelled from the spec: \<^verbatim>\<open>block.getBData()\<close> (missing \<^verbatim>\<open>block.js\<close>), the
  spec's \<^verbatim>\<open>decodePayload\<close>: the structured value, or a decode error when the stored
  bytes are not validly encoded.
\<close>

definition getBData :: "Block \<Rightarrow> js_error + BData" where
  "getBData b =
     (case body b of
        Encoded d \<Rightarrow> Inr d
      | Undecodable bytes \<Rightarrow> Inl (Error ''DecodeError''))"

section \<open>The ledger\<close>

record Blockchain =
  chain :: "Block list"
  height :: int

text \<open>The constructor's two assignments, before \<^verbatim>\<open>initializeChain\<close> runs.\<close>

definition Blockchain_new :: Blockchain where
  "Blockchain_new = \<lparr>chain = [], height = - 1\<rparr>"

subsection \<open>validateChain\<close>

text \<open>
  In \<^verbatim>\<open>validateChain\<close> the name \<^verbatim>\<open>block\<close> is declared with
  \<^verbatim>\<open>const\<close> inside the body of the first loop only. The callback of
  \<^verbatim>\<open>results.forEach\<close> (line 266) and the second loop (lines 273 and 275) use the
  name outside that body, where no enclosing function or the module binds it. Evaluating
  it there throws a \<^verbatim>\<open>ReferenceError\<close>.
\<close>

definition block_in_scope :: "js_error + Block" where
  "block_in_scope = Inl (ReferenceError ''block is not defined'')"

text \<open>\<^verbatim>\<open>${block.hash}\<close> in a template literal; \<^verbatim>\<open>null\<close> prints as "null".\<close>

definition show_hash :: "string option \<Rightarrow> string" where
  "show_hash h = (case h of None \<Rightarrow> ''null'' | Some s \<Rightarrow> s)"

text \<open>
  \<^verbatim>\<open>results.forEach(outcome => { if (!outcome) errorLog.push(...) })\<close>. The
  message is built before it is pushed, so a failing outcome reads \<^verbatim>\<open>block\<close>.
\<close>

fun forEach_results :: "bool list \<Rightarrow> string list \<Rightarrow> js_error + string list" where
  "forEach_results [] errorLog = Inr errorLog"
| "forEach_results (outcome # rest) errorLog =
     (if \<not> outcome then
        (case block_in_scope of
           Inl e \<Rightarrow> Inl e
         | Inr block \<Rightarrow>
             forEach_results rest
               (errorLog @ [''Block '' @ [CHR 0x27] @ show_hash (hash block) @ [CHR 0x27] @ '' failed validation'']))
      else forEach_results rest errorLog)"

text \<open>
  The second loop, over the indices \<open>0 ..< chain.length\<close>. At every index above 0 the
  condition reads \<^verbatim>\<open>block.previousBlockHash\<close>.
\<close>

fun link_loop :: "Block list \<Rightarrow> nat list \<Rightarrow> string list \<Rightarrow> js_error + string list" where
  "link_loop chn [] errorLog = Inr errorLog"
| "link_loop chn (i # rest) errorLog =
     (if i > 0 then
        (let previousBlock = chn ! (i - 1) in
         case block_in_scope of
           Inl e \<Rightarrow> Inl e
         | Inr block \<Rightarrow>
             if previousBlockHash block \<noteq> hash previousBlock then
               link_loop chn rest
                 (errorLog @ [''Broken chain - '' @ [CHR 0x22] @ show_hash (hash block) @ [CHR 0x22]
                                @ '' previous block hash is invalid''])
             else link_loop chn rest errorLog)
      else link_loop chn rest errorLog)"

text \<open>
  \<^verbatim>\<open>validateChain\<close>: the executor is an \<^verbatim>\<open>async\<close> function, so an exception
  in it leaves the returned promise pending for ever. \<^verbatim>\<open>block.validate()\<close> always
  resolves, so \<^verbatim>\<open>Promise.all\<close> yields the list of the outcomes.
\<close>

definition validateChain :: "(Block \<Rightarrow> string) \<Rightarrow> Blockchain \<Rightarrow> string list promise" where
  "validateChain D L =
     (let results = map (validate D) (chain L) in
      case forEach_results results [] of
        Inl e \<Rightarrow> NeverSettles e
      | Inr errorLog \<Rightarrow>
          (case link_loop (chain L) [0 ..< length (chain L)] errorLog of
             Inl e \<Rightarrow> NeverSettles e
           | Inr errorLog' \<Rightarrow> Resolved errorLog'))"

subsection \<open>The append protocol\<close>

text \<open>
  The \<^verbatim>\<open>catch\<close> clause of \<^verbatim>\<open>_addBlock\<close> (lines 101 to 107): whatever was
  thrown in the \<^verbatim>\<open>try\<close> block is replaced by a fresh \<^verbatim>\<open>Error\<close> that keeps
  only the message of the original.
\<close>

definition addBlock_catch :: "string \<Rightarrow> Block promise" where
  "addBlock_catch m = Rejected (Exn (Error (''An error occurred while adding the block. Details: '' @ m)))"

text \<open>
  The body of \<^verbatim>\<open>_addBlock\<close> from the point where
  \<^verbatim>\<open>await self.validateChain()\<close> returns; \<open>v\<close> is the way that promise ended.
  While it is pending the append is pending too. The candidate is updated field by field
  (lines 75 to 86) and pushed only after it validated; \<open>ms\<close> is the clock reading of
  line 80. Reading \<^verbatim>\<open>.hash\<close> of the last element of an empty array is a
  \<^verbatim>\<open>TypeError\<close>, which the \<^verbatim>\<open>catch\<close> clause receives.
\<close>

definition addBlock_after ::
  "(Block \<Rightarrow> string) \<Rightarrow> nat \<Rightarrow> Block \<Rightarrow> Blockchain \<Rightarrow> string list promise \<Rightarrow> Block promise \<times> Blockchain" where
  "addBlock_after D ms block L v =
     (case v of
        NeverSettles e \<Rightarrow> (NeverSettles e, L)
      | Rejected r \<Rightarrow> (addBlock_catch (reason_message r), L)
      | Resolved errors \<Rightarrow>
          if length errors > 0 then
            (addBlock_catch (err_message (Error ''Unable to add block to defective chain!'')), L)
          else if height L > - 1 \<and> chain L = [] then
            (addBlock_catch
               (err_message (TypeError (''Cannot read property '' @ [CHR 0x27] @ ''hash'' @ [CHR 0x27] @ '' of undefined''))), L)
          else
            (let b1 = (if height L > - 1
                       then block\<lparr>previousBlockHash := hash (last (chain L))\<rparr>
                       else block);
                 b2 = b1\<lparr>time := currentTime_string ms\<rparr>;
                 b3 = b2\<lparr>Block.height := int (length (chain L))\<rparr>;
                 b4 = b3\<lparr>hash := Some (D b3)\<rparr>;
                 status = validate D b4
             in if \<not> status then
                  (Rejected (Exn (Error ''Unable to add block because it is invalid'')), L)
                else
                  (Resolved b4, L\<lparr>chain := chain L @ [b4], height := height L + 1\<rparr>)))"

text \<open>\<^verbatim>\<open>_addBlock(block)\<close>: the chain is revalidated first.\<close>

definition addBlock ::
  "(Block \<Rightarrow> string) \<Rightarrow> nat \<Rightarrow> Block \<Rightarrow> Blockchain \<Rightarrow> Block promise \<times> Blockchain" where
  "addBlock D ms block L = addBlock_after D ms block L (validateChain D L)"

text \<open>
  \<^verbatim>\<open>initializeChain\<close>: an \<^verbatim>\<open>async\<close> method, so a rejection of the awaited
  append rejects it with the same reason.
\<close>

definition initializeChain :: "(Block \<Rightarrow> string) \<Rightarrow> nat \<Rightarrow> Blockchain \<Rightarrow> unit promise \<times> Blockchain" where
  "initializeChain D ms L =
     (if height L = - 1 then
        (let block = new_Block (GenesisData ''Genesis Block'') in
         case addBlock D ms block L of
           (Resolved b, L') \<Rightarrow> (Resolved (), L')
         | (Rejected r, L') \<Rightarrow> (Rejected r, L')
         | (NeverSettles e, L') \<Rightarrow> (NeverSettles e, L'))
      else (Resolved (), L))"

text \<open>
  Construction: the constructor's assignments followed by \<^verbatim>\<open>initializeChain\<close>, run
  to its end. This is the ledger as the first external operation finds it.
\<close>

definition construct :: "(Block \<Rightarrow> string) \<Rightarrow> nat \<Rightarrow> Blockchain" where
  "construct D ms = snd (initializeChain D ms Blockchain_new)"

subsection \<open>Queries\<close>

definition getChainHeight :: "Blockchain \<Rightarrow> int promise" where
  "getChainHeight L = Resolved (height L)"

text \<open>\<^verbatim>\<open>getBlockByHash\<close>: the first block of the filtered chain, or a rejection.\<close>

definition getBlockByHash :: "string option \<Rightarrow> Blockchain \<Rightarrow> Block promise" where
  "getBlockByHash h L =
     (let result = filter (\<lambda>block. hash block = h) (chain L) in
      if length result > 0 then Resolved (hd result)
      else Rejected (Exn (Error ''No hash was found with the specified hash'')))"


text \<open>
  \<^verbatim>\<open>getStarsByWalletAddress\<close>: the callback given to \<^verbatim>\<open>chain.filter\<close> runs
  once per block, in chain order, over the whole chain. A payload that does not decode
  is reported on the console and the scan goes on. The test
  \<^verbatim>\<open>blockAddr && blockAddr === address\<close> needs a truthy owner: a defined,
  non-empty string. The promise is resolved with the array \<^verbatim>\<open>stars\<close> itself, which
  the callbacks fill after their \<^verbatim>\<open>await\<close>; the model gives the content of that
  array once every callback has run.
\<close>

fun collect_stars :: "string \<Rightarrow> Block list \<Rightarrow> BData list \<Rightarrow> BData list" where
  "collect_stars address [] stars = stars"
| "collect_stars address (block # rest) stars =
     (case getBData block of
        Inl err \<Rightarrow> collect_stars address rest stars
      | Inr data \<Rightarrow>
          (let blockAddr = owner data in
           if (blockAddr \<noteq> None \<and> blockAddr \<noteq> Some []) \<and> blockAddr = Some address
           then collect_stars address rest (stars @ [data])
           else collect_stars address rest stars))"

definition getStarsByWalletAddress :: "string \<Rightarrow> Blockchain \<Rightarrow> BData list promise" where
  "getStarsByWalletAddress address L = Resolved (collect_stars address (chain L) [])"

subsection \<open>The ownership protocol\<close>

definition requestMessageOwnershipVerification :: "nat \<Rightarrow> string \<Rightarrow> string promise" where
  "requestMessageOwnershipVerification ms address =
     (let currentTime = currentTime_string ms in
      Resolved (address @ '':'' @ currentTime @ '':starRegistry''))"

text \<open>Lines 150 to 152: the time embedded in the message.\<close>

definition message_time :: "string \<Rightarrow> jsnum" where
  "message_time message = (let tokens = split_colon message in parseInt (js_index tokens 1))"

text \<open>Lines 155 to 158: the test that guards the rejection for an expired message.\<close>

definition time_limit_exceeded :: "nat \<Rightarrow> string \<Rightarrow> bool" where
  "time_limit_exceeded ms message =
     (let time = message_time message;
          currentTime = currentTime_string ms;
          timeLimit = 5 * 60
      in js_gt (js_minus (ToNumber currentTime) time) (Num timeLimit))"

text \<open>The \<^verbatim>\<open>catch\<close> clause of \<^verbatim>\<open>submitStar\<close> (lines 174 to 180).\<close>

definition submitStar_catch :: "string \<Rightarrow> Block promise" where
  "submitStar_catch m =
     Rejected (Exn (Error (''Unable to register block with star object. Details: '' @ m)))"

text \<open>
  Lines 164 to 173: the signature check and the append. \<open>V\<close> stands for
  \<^verbatim>\<open>bitcoinMessage.verify\<close>, an external primitive that answers true or false or
  throws; \<open>ms'\<close> is the clock reading inside the append.
\<close>

definition verify_and_add ::
  "(Block \<Rightarrow> string) \<Rightarrow> (string \<Rightarrow> string \<Rightarrow> string \<Rightarrow> js_error + bool) \<Rightarrow> nat \<Rightarrow>
   string \<Rightarrow> string \<Rightarrow> string \<Rightarrow> string \<Rightarrow> Blockchain \<Rightarrow> Block promise \<times> Blockchain" where
  "verify_and_add D V ms' address message signature star L =
     (case V message address signature of
        Inl e \<Rightarrow> (submitStar_catch (err_message e), L)
      | Inr status \<Rightarrow>
          if \<not> status then (Rejected (Str ''Message verification failed''), L)
          else
            (let block = new_Block (StarData star address) in
             case addBlock D ms' block L of
               (Resolved b, L') \<Rightarrow> (Resolved b, L')
             | (Rejected r, L') \<Rightarrow> (submitStar_catch (reason_message r), L')
             | (NeverSettles e, L') \<Rightarrow> (NeverSettles e, L')))"

text \<open>
  \<^verbatim>\<open>submitStar(address, message, signature, star)\<close>; \<open>ms\<close> is the clock reading of
  line 155.
\<close>

definition submitStar ::
  "(Block \<Rightarrow> string) \<Rightarrow> (string \<Rightarrow> string \<Rightarrow> string \<Rightarrow> js_error + bool) \<Rightarrow> nat \<Rightarrow> nat \<Rightarrow>
   string \<Rightarrow> string \<Rightarrow> string \<Rightarrow> string \<Rightarrow> Blockchain \<Rightarrow> Block promise \<times> Blockchain" where
  "submitStar D V ms ms' address message signature star L =
     (if time_limit_exceeded ms message then
        (Rejected (Str ''Cannot verify message as the time limit is exceeded''), L)
      else verify_and_add D V ms' address message signature star L)"

section \<open>Appends in flight\<close>

text \<open>
  \<^verbatim>\<open>_addBlock\<close> does not run in one piece. It is suspended at each
  \<^verbatim>\<open>await\<close>, and between two of its segments the segments of other calls run. An
  append in flight is the candidate block, the clock reading that line 80 will get, and
  the place where the call is suspended.
\<close>

datatype stage =
    AwaitResults "bool list"
  | AwaitErrors "string list promise"
  | AwaitStatus Block bool
  | Settled "Block promise"

text \<open>
  \<open>AwaitResults\<close>: suspended inside \<^verbatim>\<open>validateChain\<close> at line 263, with the
  outcomes of the calls of \<^verbatim>\<open>block.validate()\<close>. \<open>AwaitErrors\<close>:
  \<^verbatim>\<open>validateChain\<close> has settled, and \<^verbatim>\<open>_addBlock\<close> is queued to go on after
  line 68 with its outcome. \<open>AwaitStatus\<close>: suspended at line 88, with the sealed
  candidate and the outcome of its \<^verbatim>\<open>validate()\<close>. \<open>Settled\<close>: the promise of
  \<^verbatim>\<open>_addBlock\<close> has settled, or it is known that it never will.
\<close>

record append_call =
  candidate :: Block
  clock_ms :: nat
  stage :: stage

text \<open>
  The call itself, up to the first suspension: \<^verbatim>\<open>_addBlock\<close> calls
  \<^verbatim>\<open>validateChain\<close> (line 68), whose first loop calls \<^verbatim>\<open>block.validate()\<close>
  on every block of the chain as it is now (lines 258 to 261) and then waits for
  \<^verbatim>\<open>Promise.all\<close> (line 263). The ledger is not written.
\<close>

definition call_addBlock :: "(Block \<Rightarrow> string) \<Rightarrow> nat \<Rightarrow> Block \<Rightarrow> Blockchain \<Rightarrow> append_call" where
  "call_addBlock D ms block L =
     \<lparr>candidate = block, clock_ms = ms, stage = AwaitResults (map (validate D) (chain L))\<rparr>"

text \<open>
  \<^verbatim>\<open>validateChain\<close> from line 264 on: the outcomes are inspected, and the second
  loop runs over the chain as it is when this segment runs.
\<close>

definition resume_validateChain :: "bool list \<Rightarrow> Blockchain \<Rightarrow> string list promise" where
  "resume_validateChain results L =
     (case forEach_results results [] of
        Inl e \<Rightarrow> NeverSettles e
      | Inr errorLog \<Rightarrow>
          (case link_loop (chain L) [0 ..< length (chain L)] errorLog of
             Inl e \<Rightarrow> NeverSettles e
           | Inr errorLog' \<Rightarrow> Resolved errorLog'))"

text \<open>
  \<^verbatim>\<open>_addBlock\<close> from line 69 to line 88: the candidate is linked to the block that
  is last now, stamped, given the length of the chain as its height, and sealed; then
  \<^verbatim>\<open>block.validate()\<close> is called and awaited. The ledger is only read.
\<close>

definition seal ::
  "(Block \<Rightarrow> string) \<Rightarrow> nat \<Rightarrow> Block \<Rightarrow> Blockchain \<Rightarrow> string list promise \<Rightarrow> Block promise + Block \<times> bool" where
  "seal D ms block L v =
     (case v of
        NeverSettles e \<Rightarrow> Inl (NeverSettles e)
      | Rejected r \<Rightarrow> Inl (addBlock_catch (reason_message r))
      | Resolved errors \<Rightarrow>
          if length errors > 0 then
            Inl (addBlock_catch (err_message (Error ''Unable to add block to defective chain!'')))
          else if height L > - 1 \<and> chain L = [] then
            Inl (addBlock_catch
                   (err_message (TypeError (''Cannot read property '' @ [CHR 0x27] @ ''hash'' @ [CHR 0x27] @ '' of undefined''))))
          else
            (let b1 = (if height L > - 1
                       then block\<lparr>previousBlockHash := hash (last (chain L))\<rparr>
                       else block);
                 b2 = b1\<lparr>time := currentTime_string ms\<rparr>;
                 b3 = b2\<lparr>Block.height := int (length (chain L))\<rparr>;
                 b4 = b3\<lparr>hash := Some (D b3)\<rparr>
             in Inr (b4, validate D b4)))"

text \<open>
  \<^verbatim>\<open>_addBlock\<close> from line 89 to line 100: the sealed block is pushed onto the chain
  as it is now and the height is incremented.
\<close>

definition push :: "Block \<Rightarrow> bool \<Rightarrow> Blockchain \<Rightarrow> Block promise \<times> Blockchain" where
  "push b4 status L =
     (if \<not> status then
        (Rejected (Exn (Error ''Unable to add block because it is invalid'')), L)
      else
        (Resolved b4, L\<lparr>chain := chain L @ [b4], height := height L + 1\<rparr>))"

text \<open>
  One segment of an append in flight. When \<^verbatim>\<open>validateChain\<close> never settles, the
  append never resumes, and its promise never settles either.
\<close>

definition resume :: "(Block \<Rightarrow> string) \<Rightarrow> append_call \<Rightarrow> Blockchain \<Rightarrow> append_call \<times> Blockchain" where
  "resume D p L =
     (case stage p of
        AwaitResults results \<Rightarrow>
          (case resume_validateChain results L of
             NeverSettles e \<Rightarrow> (p\<lparr>stage := Settled (NeverSettles e)\<rparr>, L)
           | Rejected r \<Rightarrow> (p\<lparr>stage := AwaitErrors (Rejected r)\<rparr>, L)
           | Resolved errors \<Rightarrow> (p\<lparr>stage := AwaitErrors (Resolved errors)\<rparr>, L))
      | AwaitErrors v \<Rightarrow>
          (case seal D (clock_ms p) (candidate p) L v of
             Inl r \<Rightarrow> (p\<lparr>stage := Settled r\<rparr>, L)
           | Inr (b4, status) \<Rightarrow> (p\<lparr>stage := AwaitStatus b4 status\<rparr>, L))
      | AwaitStatus b4 status \<Rightarrow>
          (case push b4 status L of (r, L') \<Rightarrow> (p\<lparr>stage := Settled r\<rparr>, L'))
      | Settled r \<Rightarrow> (p, L))"

text \<open>
  The ledger together with the appends in flight, in the order in which they were
  called.
\<close>

type_synonym config = "Blockchain \<times> append_call list"

text \<open>
  The synchronous part of \<^verbatim>\<open>submitStar\<close> (lines 150 to 172): when the message is
  not expired and the signature verifies, an append of a fresh block is called and left
  in flight; in every other case the call is rejected at once and nothing is in flight.
\<close>

definition call_submitStar ::
  "(Block \<Rightarrow> string) \<Rightarrow> (string \<Rightarrow> string \<Rightarrow> string \<Rightarrow> js_error + bool) \<Rightarrow> nat \<Rightarrow> nat \<Rightarrow>
   string \<Rightarrow> string \<Rightarrow> string \<Rightarrow> string \<Rightarrow> config \<Rightarrow> config" where
  "call_submitStar D V ms ms' address message signature star c =
     (case c of (L, ps) \<Rightarrow>
        if time_limit_exceeded ms message then (L, ps)
        else (case V message address signature of
                Inl e \<Rightarrow> (L, ps)
              | Inr status \<Rightarrow>
                  if \<not> status then (L, ps)
                  else (L, ps @ [call_addBlock D ms' (new_Block (StarData star address)) L])))"

text \<open>The synchronous part of \<^verbatim>\<open>initializeChain\<close> (lines 36 to 38).\<close>

definition call_initializeChain :: "(Block \<Rightarrow> string) \<Rightarrow> nat \<Rightarrow> config \<Rightarrow> config" where
  "call_initializeChain D ms c =
     (case c of (L, ps) \<Rightarrow>
        if height L = - 1
        then (L, ps @ [call_addBlock D ms (new_Block (GenesisData ''Genesis Block'')) L])
        else (L, ps))"

text \<open>
  \<^verbatim>\<open>new Blockchain()\<close> (lines 24 to 28): the two assignments and the call of
  \<^verbatim>\<open>initializeChain\<close>, which is not awaited. The constructor returns with the
  append of the genesis block in flight.
\<close>

definition Blockchain_constructor :: "(Block \<Rightarrow> string) \<Rightarrow> nat \<Rightarrow> config" where
  "Blockchain_constructor D ms = call_initializeChain D ms (Blockchain_new, [])"

text \<open>
  Continuations run in the order in which they were queued, and every append goes
  through the same three awaits. So an append runs its next segment only when every
  append called before it is further on than it is.
\<close>

fun rank :: "stage \<Rightarrow> nat" where
  "rank (AwaitResults results) = 0"
| "rank (AwaitErrors v) = 1"
| "rank (AwaitStatus b4 status) = 2"
| "rank (Settled r) = 3"

definition may_resume :: "append_call list \<Rightarrow> nat \<Rightarrow> bool" where
  "may_resume ps i =
     (i < length ps \<and> rank (stage (ps ! i)) < 3 \<and>
      list_all (\<lambda>q. rank (stage (ps ! i)) < rank (stage q)) (take i ps))"

text \<open>
  What a caller and the event loop can do to a ledger: call \<^verbatim>\<open>submitStar\<close>, call
  \<^verbatim>\<open>initializeChain\<close>, or let the append at some position run its next segment.
  The queries only read the ledger.
\<close>

datatype event =
    Submit nat nat string string string string
  | Initialize nat
  | Resume nat

fun fire ::
  "(Block \<Rightarrow> string) \<Rightarrow> (string \<Rightarrow> string \<Rightarrow> string \<Rightarrow> js_error + bool) \<Rightarrow> event \<Rightarrow> config \<Rightarrow> config option" where
  "fire D V (Submit ms ms' address message signature star) c =
     Some (call_submitStar D V ms ms' address message signature star c)"
| "fire D V (Initialize ms) c = Some (call_initializeChain D ms c)"
| "fire D V (Resume i) (L, ps) =
     (if may_resume ps i
      then (case resume D (ps ! i) L of (p', L') \<Rightarrow> Some (L', ps[i := p']))
      else None)"

fun run ::
  "(Block \<Rightarrow> string) \<Rightarrow> (string \<Rightarrow> string \<Rightarrow> string \<Rightarrow> js_error + bool) \<Rightarrow> event list \<Rightarrow> config \<Rightarrow> config option" where
  "run D V [] c = Some c"
| "run D V (e # es) c = (case fire D V e c of None \<Rightarrow> None | Some c' \<Rightarrow> run D V es c')"

text \<open>
  An append that nothing interleaves with: its three segments, one after the other.
\<close>

definition settle :: "(Block \<Rightarrow> string) \<Rightarrow> append_call \<Rightarrow> Blockchain \<Rightarrow> append_call \<times> Blockchain" where
  "settle D p L =
     (case resume D p L of (p1, L1) \<Rightarrow>
        case resume D p1 L1 of (p2, L2) \<Rightarrow> resume D p2 L2)"

section \<open>What holds of every ledger the operations build\<close>

text \<open>
  A contract of the signature primitive: no signature is accepted for the empty string
  as the address. (\<^verbatim>\<open>bitcoinMessage.verify\<close> throws on a string that does not
  decode to an address.)
\<close>

definition rejects_empty_address :: "(string \<Rightarrow> string \<Rightarrow> string \<Rightarrow> js_error + bool) \<Rightarrow> bool" where
  "rejects_empty_address V = (\<forall>message signature. V message [] signature \<noteq> Inr True)"

text \<open>A block whose payload decodes, and whose owner, if it has one, is not empty.\<close>

definition well_owned :: "Block \<Rightarrow> bool" where
  "well_owned b = (case body b of Encoded d \<Rightarrow> owner d \<noteq> Some [] | Undecodable bytes \<Rightarrow> False)"

definition is_genesis :: "Block \<Rightarrow> bool" where
  "is_genesis b = (body b = Encoded (GenesisData ''Genesis Block''))"

text \<open>
  The append of the genesis block, called by the constructor on the empty ledger, at a
  place from which it goes on to push its block.
\<close>

definition genesis_pending :: "append_call \<Rightarrow> bool" where
  "genesis_pending p =
     (candidate p = new_Block (GenesisData ''Genesis Block'') \<and>
      (case stage p of
         AwaitResults results \<Rightarrow> results = []
       | AwaitErrors v \<Rightarrow> v = Resolved []
       | AwaitStatus b4 status \<Rightarrow> status \<and> is_genesis b4
       | Settled r \<Rightarrow> False))"

definition call_ok :: "append_call \<Rightarrow> bool" where
  "call_ok p =
     (well_owned (candidate p) \<and>
      (case stage p of AwaitStatus b4 status \<Rightarrow> well_owned b4 | _ \<Rightarrow> True))"

text \<open>
  The invariant: every block on the chain and in flight is well owned; the chain starts
  with the genesis block, or it is still empty and the genesis block is the first
  append in flight.
\<close>

definition config_ok :: "config \<Rightarrow> bool" where
  "config_ok c =
     (case c of (L, ps) \<Rightarrow>
        list_all well_owned (chain L) \<and> list_all call_ok ps \<and>
        (case chain L of
           [] \<Rightarrow> height L = - 1 \<and> (case ps of [] \<Rightarrow> False | p # rest \<Rightarrow> genesis_pending p)
         | g # rest \<Rightarrow> is_genesis g))"

section \<open>Sample primitives\<close>

text \<open>
  Concrete stand-ins for the external primitives, used to run the model on concrete
  inputs: a digest that prints the fields it covers, and a signature scheme in which the
  signature of a message by an address is the address, a slash and the message, and
  which throws on the empty string, which is no address.
\<close>

definition sample_digest :: "Block \<Rightarrow> string" where
  "sample_digest b = ''#'' @ time b @ ''/'' @ show_hash (previousBlockHash b)"

definition sample_verify :: "string \<Rightarrow> string \<Rightarrow> string \<Rightarrow> js_error + bool" where
  "sample_verify message address signature =
     (if address = [] then Inl (Error ''Invalid address'')
      else Inr (signature = address @ ''/'' @ message))"

section \<open>The specification's wording and sample ledgers\<close>

text \<open>The hash chain, block by block.\<close>

fun linked :: "Block list \<Rightarrow> bool" where
  "linked (a # b # rest) = (previousBlockHash b = hash a \<and> linked (b # rest))"
| "linked _ = True"

text \<open>
  The specification's wording of \<^verbatim>\<open>getStarsByOwner\<close>: scan all blocks except index
  0, decode each payload, skip the ones that do not decode, and collect those whose
  decoded owner equals the address, in chain order.
\<close>

definition getStarsByOwner_spec :: "string \<Rightarrow> Blockchain \<Rightarrow> BData list" where
  "getStarsByOwner_spec address L =
     concat (map (\<lambda>b. case getBData b of
                         Inl e \<Rightarrow> []
                       | Inr d \<Rightarrow> if owner d = Some address then [d] else [])
                 (tl (chain L)))"

text \<open>
  Two sample ledgers: the ledger as constructed at clock reading 999000, and the same
  ledger after one accepted submission by the address A at clock reading 1000000.
\<close>

definition sample_ledger1 :: Blockchain where
  "sample_ledger1 = construct sample_digest 999000"

definition sample_ledger2 :: Blockchain where
  "sample_ledger2 =
     snd (submitStar sample_digest sample_verify 1000000 1000000
            ''A'' ''A:1000:starRegistry'' ''A/A:1000:starRegistry'' ''star1'' sample_ledger1)"

text \<open>
  The constructed sample ledger with the time field of its only block overwritten after
  sealing, so that the block no longer validates.
\<close>

definition sample_tampered :: Blockchain where
  "sample_tampered = sample_ledger1\<lparr>chain := map (\<lambda>b. b\<lparr>time := ''0''\<rparr>) (chain sample_ledger1)\<rparr>"

text \<open>
  A ledger of five blocks given by their payloads only: the genesis block, two stars of
  A, one star of B, and at index 2 a block whose stored bytes do not decode.
\<close>

definition sample_mixed :: Blockchain where
  "sample_mixed =
     \<lparr>chain =
        [new_Block (GenesisData ''Genesis Block''),
         (new_Block (StarData ''s1'' ''A''))\<lparr>Block.height := 1\<rparr>,
         (new_Block (StarData ''lost'' ''A''))\<lparr>Block.height := 2, body := Undecodable ''zz''\<rparr>,
         (new_Block (StarData ''s2'' ''B''))\<lparr>Block.height := 3\<rparr>,
         (new_Block (StarData ''s3'' ''A''))\<lparr>Block.height := 4\<rparr>],
      height = 4\<rparr>"

text \<open>
  Three runs that start with \<^verbatim>\<open>new Blockchain()\<close> at clock reading 999000. In
  the first, \<^verbatim>\<open>submitStar\<close> is called before the constructor's append has run
  any further, and the two appends take turns. In the second, the genesis append runs
  to its end, then \<^verbatim>\<open>submitStar\<close> is called twice in a row and the two appends take
  turns. In the third, three submissions are called right after the constructor.
\<close>

definition race_with_constructor :: "config option" where
  "race_with_constructor =
     run sample_digest sample_verify
       [Submit 1000000 1000000 ''A'' ''A:1000:starRegistry'' ''A/A:1000:starRegistry'' ''star1'',
        Resume 0, Resume 1, Resume 0, Resume 1, Resume 0, Resume 1]
       (Blockchain_constructor sample_digest 999000)"

definition race_of_two_submissions :: "config option" where
  "race_of_two_submissions =
     run sample_digest sample_verify
       [Resume 0, Resume 0, Resume 0,
        Submit 1000000 1000000 ''A'' ''A:1000:starRegistry'' ''A/A:1000:starRegistry'' ''star1'',
        Submit 1000000 1000000 ''B'' ''B:1000:starRegistry'' ''B/B:1000:starRegistry'' ''star2'',
        Resume 1, Resume 2, Resume 1, Resume 2, Resume 1, Resume 2]
       (Blockchain_constructor sample_digest 999000)"

definition three_submissions :: "config option" where
  "three_submissions =
     run sample_digest sample_verify
       [Submit 1000000 1000000 ''A'' ''A:1000:starRegistry'' ''A/A:1000:starRegistry'' ''star1'',
        Submit 1000000 1000000 ''B'' ''B:1000:starRegistry'' ''B/B:1000:starRegistry'' ''star2'',
        Submit 1000000 1000000 ''A'' ''A:1000:starRegistry'' ''A/A:1000:starRegistry'' ''star3'',
        Resume 0, Resume 1, Resume 2, Resume 3,
        Resume 0, Resume 1, Resume 2, Resume 3,
        Resume 0, Resume 1, Resume 2, Resume 3]
       (Blockchain_constructor sample_digest 999000)"

section \<open>Properties\<close>

subsection \<open>The clock\<close>

lemma digit_of_digit_char: "d < 10 \<Longrightarrow> digit_of (digit_char d) = Some d"
proof -
  assume "d < 10"
  then have "d \<in> {0, 1, 2, 3, 4, 5, 6, 7, 8, 9}" by auto
  then show ?thesis
    by (elim insertE emptyE) (simp_all add: digit_of_def digit_char_def)
qed

lemma in_radix_digit_char: "d < 10 \<Longrightarrow> in_radix 10 (digit_char d)"
  by (simp add: in_radix_def digit_of_digit_char)

lemma dec_digits: "list_all (in_radix 10) (dec n)"
  by (induction n rule: dec.induct) (subst dec.simps, simp add: in_radix_digit_char)

lemma dec_value: "digits_value 10 (dec n) = n"
proof (induction n rule: dec.induct)
  case (1 n)
  show ?case
  proof (cases "n < 10")
    case True
    then show ?thesis by (subst dec.simps) (simp add: digits_value_def digit_of_digit_char)
  next
    case False
    with 1 have "digits_value 10 (dec (n div 10)) = n div 10" by simp
    with False show ?thesis
      by (subst dec.simps) (simp add: digits_value_def digit_of_digit_char)
  qed
qed

lemma dec_nonempty: "dec n \<noteq> []"
  by (subst dec.simps) simp

lemma ToNumber_dec: "ToNumber (dec n) = Num (int n)"
  by (simp add: ToNumber_def dec_digits dec_value dec_nonempty)

lemma dec_split: "1000 \<le> n \<Longrightarrow> \<exists>a b c. dec n = dec (n div 1000) @ [a, b, c]"
proof -
  assume n: "1000 \<le> n"
  have h: "\<not> n < 10" "\<not> n div 10 < 10" "\<not> n div 10 div 10 < 10" using n by arith+
  have e1: "dec n = dec (n div 10) @ [digit_char (n mod 10)]"
    using h by (subst dec.simps) simp
  have e2: "dec (n div 10) = dec (n div 10 div 10) @ [digit_char (n div 10 mod 10)]"
    using h by (subst dec.simps) simp
  have e3: "dec (n div 10 div 10) = dec (n div 10 div 10 div 10) @ [digit_char (n div 10 div 10 mod 10)]"
    using h by (subst dec.simps) simp
  have "n div 10 div 10 div 10 = n div 1000" by (simp add: div_mult2_eq[symmetric])
  with e1 e2 e3 show ?thesis by simp
qed

lemma dec_short: "n < 1000 \<Longrightarrow> length (dec n) \<le> 3"
  by (subst dec.simps, simp, subst dec.simps, simp, subst dec.simps, simp)

text \<open>
  The number the code subtracts from is the clock reading in whole seconds: cutting the
  last three digits of the milliseconds divides by 1000, and below one second the empty
  string converts to 0.
\<close>

lemma clock_seconds: "ToNumber (currentTime_string ms) = Num (int (ms div 1000))"
proof (cases "ms < 1000")
  case True
  then show ?thesis using dec_short[of ms] by (simp add: currentTime_string_def ToNumber_def)
next
  case False
  then obtain a b c where "dec ms = dec (ms div 1000) @ [a, b, c]"
    using dec_split[of ms] by auto
  then show ?thesis by (simp add: currentTime_string_def ToNumber_dec)
qed

subsection \<open>What validateChain computes\<close>

lemma forEach_results_eq:
  "forEach_results rs errorLog =
     (if list_all (\<lambda>outcome. outcome) rs then Inr errorLog
      else Inl (ReferenceError ''block is not defined''))"
  by (induction rs arbitrary: errorLog) (simp_all add: block_in_scope_def)

lemma link_loop_eq:
  "link_loop chn is errorLog =
     (if list_all (\<lambda>i. i = 0) is then Inr errorLog
      else Inl (ReferenceError ''block is not defined''))"
  by (induction "is" arbitrary: errorLog) (simp_all add: block_in_scope_def)

lemma indices_all_zero: "list_all (\<lambda>i. i = 0) [0 ..< n] = (n \<le> 1)"
  by (induction n) auto

text \<open>
  The promise of \<^verbatim>\<open>validateChain\<close> is resolved only for a chain of at most one
  block in which every block validates, and then with the empty list. In every other
  case one of the two uses of \<^verbatim>\<open>block\<close> is reached and the promise stays pending.
\<close>

lemma validateChain_eq:
  "validateChain D L =
     (if list_all (validate D) (chain L) \<and> length (chain L) \<le> 1 then Resolved []
      else NeverSettles (ReferenceError ''block is not defined''))"
  by (simp add: validateChain_def forEach_results_eq link_loop_eq indices_all_zero list.pred_map comp_def)

subsection \<open>What an append does to the ledger\<close>

lemma addBlock_after_state:
  "snd (addBlock_after D ms block L v) = L \<or>
   (\<exists>b. addBlock_after D ms block L v = (Resolved b, L\<lparr>chain := chain L @ [b], height := height L + 1\<rparr>) \<and>
        Block.height b = int (length (chain L)) \<and>
        previousBlockHash b = (if height L > - 1 then hash (last (chain L)) else previousBlockHash block) \<and>
        body b = body block \<and> validate D b \<and> v = Resolved [])"
  by (auto simp: addBlock_after_def Let_def addBlock_catch_def split: promise.splits)

lemma addBlock_after_Resolved:
  assumes "addBlock_after D ms block L v = (Resolved b, L')"
  shows "L' = L\<lparr>chain := chain L @ [b], height := height L + 1\<rparr> \<and>
         Block.height b = int (length (chain L)) \<and>
         previousBlockHash b = (if height L > - 1 then hash (last (chain L)) else previousBlockHash block) \<and>
         body b = body block \<and> validate D b \<and> v = Resolved []"
  using assms
  by (auto simp: addBlock_after_def Let_def addBlock_catch_def split: promise.splits if_splits)

lemma construct_eq:
  "construct D ms =
     \<lparr>chain = [(new_Block (GenesisData ''Genesis Block''))
                 \<lparr>time := currentTime_string ms, Block.height := 0,
                  hash := Some (D ((new_Block (GenesisData ''Genesis Block''))
                                     \<lparr>time := currentTime_string ms, Block.height := 0\<rparr>))\<rparr>],
      height = 0\<rparr>"
  by (simp add: construct_def initializeChain_def Blockchain_new_def addBlock_def validateChain_eq
        addBlock_after_def Let_def validate_def new_Block_def)

subsection \<open>The expiry test and the stages of submitStar\<close>

lemma time_limit_exceeded_Num:
  "message_time message = Num t \<Longrightarrow> time_limit_exceeded ms message = (300 < int (ms div 1000) - t)"
  by (simp add: time_limit_exceeded_def clock_seconds)

lemma verify_and_add_not_expiry:
  "fst (verify_and_add D V ms' address message signature star L) \<noteq>
     Rejected (Str ''Cannot verify message as the time limit is exceeded'')"
  by (auto simp: verify_and_add_def submitStar_catch_def Let_def split: sum.splits prod.splits promise.splits)

lemma time_limit_exceeded_NaN: "message_time message = NaN \<Longrightarrow> \<not> time_limit_exceeded ms message"
  by (simp add: time_limit_exceeded_def)

subsection \<open>The scan of getStarsByWalletAddress\<close>

lemma collect_stars_eq:
  "collect_stars address blocks stars =
     (if address = [] then stars
      else stars @ concat (map (\<lambda>b. case getBData b of
                                      Inl e \<Rightarrow> []
                                    | Inr d \<Rightarrow> if owner d = Some address then [d] else [])
                              blocks))"
  by (induction blocks arbitrary: stars) (auto simp: Let_def split: sum.splits)

subsection \<open>Challenges issued by the ledger\<close>

lemma in_radix_10_range: "in_radix 10 c \<Longrightarrow> 48 \<le> (of_char c :: nat) \<and> (of_char c :: nat) \<le> 57"
  by (simp add: in_radix_def digit_of_def Let_def split: if_splits)

lemma digit_not_special:
  assumes "in_radix 10 c"
  shows "\<not> is_ws c" and "c \<noteq> CHR '':''" and "c \<noteq> CHR ''-''" and "c \<noteq> CHR ''+''"
    and "c \<noteq> CHR ''x''" and "c \<noteq> CHR ''X''"
  using in_radix_10_range[OF assms] by (auto simp: is_ws_def)

lemma split_colon_prefix:
  "CHR '':'' \<notin> set a \<Longrightarrow> split_colon (a @ CHR '':'' # rest) = a # split_colon rest"
  by (induction a) auto

lemma split_colon_plain: "CHR '':'' \<notin> set s \<Longrightarrow> split_colon s = [s]"
  by (induction s) auto

lemma parseInt_str_digits:
  assumes "ds \<noteq> []" and "list_all (in_radix 10) ds"
  shows "parseInt_str ds = Num (int (digits_value 10 ds))"
proof -
  from assms obtain c cs where ds: "ds = c # cs" by (cases ds) auto
  with assms(2) have c: "in_radix 10 c" and cs: "list_all (in_radix 10) cs" by auto
  have tw: "takeWhile (in_radix 10) ds = ds"
    using assms(2) by (simp add: list_all_iff)
  have nohex: "\<not> (case ds of a # b # _ \<Rightarrow> a = CHR ''0'' \<and> (b = CHR ''x'' \<or> b = CHR ''X'') | _ \<Rightarrow> False)"
  proof (cases cs)
    case Nil
    with ds show ?thesis by simp
  next
    case (Cons b bs)
    with cs have "in_radix 10 b" by simp
    with ds Cons show ?thesis using digit_not_special(5,6)[of b] by auto
  qed
  have s1: "dropWhile is_ws ds = ds"
    using ds digit_not_special(1)[OF c] by simp
  show ?thesis
    unfolding parseInt_str_def s1 Let_def
    using ds digit_not_special(3,4)[OF c] nohex tw assms(1)
    by (simp del: takeWhile_eq_all_conv)
qed

lemma parseInt_str_dec: "parseInt_str (dec n) = Num (int n)"
  using parseInt_str_digits[OF dec_nonempty dec_digits, of n] by (simp add: dec_value)

lemma currentTime_string_dec: "1000 \<le> ms \<Longrightarrow> currentTime_string ms = dec (ms div 1000)"
proof -
  assume "1000 \<le> ms"
  then obtain a b c where "dec ms = dec (ms div 1000) @ [a, b, c]"
    using dec_split[of ms] by auto
  then show ?thesis by (simp add: currentTime_string_def)
qed

lemma dec_no_colon: "CHR '':'' \<notin> set (dec n)"
  using dec_digits[of n] digit_not_special(2) by (auto simp: list_all_iff)

text \<open>
  The message that \<^verbatim>\<open>requestMessageOwnershipVerification\<close> issues for an address
  without a colon carries the clock of its issue, in whole seconds, as the time that
  \<^verbatim>\<open>submitStar\<close> reads back.
\<close>

lemma issued_challenge_time:
  assumes "CHR '':'' \<notin> set address" and "1000 \<le> ms0"
    and "requestMessageOwnershipVerification ms0 address = Resolved message"
  shows "message_time message = Num (int (ms0 div 1000))"
proof -
  from assms(2,3) have m: "message = address @ CHR '':'' # (dec (ms0 div 1000) @ CHR '':'' # ''starRegistry'')"
    by (simp add: requestMessageOwnershipVerification_def currentTime_string_dec)
  have "split_colon message = [address, dec (ms0 div 1000), ''starRegistry'']"
    unfolding m
    by (simp only: split_colon_prefix[OF assms(1)] split_colon_prefix[OF dec_no_colon])
       (simp add: split_colon_plain)
  then show ?thesis
    by (simp add: message_time_def js_index_def parseInt_def parseInt_str_dec)
qed

subsection \<open>The segments of an append, run back to back\<close>

text \<open>
  Cutting \<^verbatim>\<open>_addBlock\<close> at its awaits changes nothing when no other call comes in
  between: the three segments in a row are \<open>addBlock\<close>.
\<close>

lemma validateChain_resume:
  "validateChain D L = resume_validateChain (map (validate D) (chain L)) L"
  by (simp add: validateChain_def resume_validateChain_def)

lemma addBlock_after_seal_push:
  "addBlock_after D ms block L v =
     (case seal D ms block L v of
        Inl r \<Rightarrow> (r, L)
      | Inr (b4, status) \<Rightarrow> push b4 status L)"
  by (simp add: addBlock_after_def seal_def push_def Let_def split: promise.splits)

lemma settle_is_addBlock:
  "settle D (call_addBlock D ms block L) L =
     ((call_addBlock D ms block L)\<lparr>stage := Settled (fst (addBlock D ms block L))\<rparr>,
      snd (addBlock D ms block L))"
  by (simp add: settle_def resume_def call_addBlock_def addBlock_def validateChain_resume
        addBlock_after_seal_push seal_def
        split: promise.splits sum.splits prod.splits)

text \<open>
  \<^verbatim>\<open>_addBlock\<close> never reports a defective chain: the rejection of line 71 is out
  of reach, because \<^verbatim>\<open>validateChain\<close> never resolves with an error.
\<close>

lemma addBlock_never_reports_defects:
  "fst (addBlock D ms block L) \<noteq>
     Rejected (Exn (Error ''An error occurred while adding the block. Details: Unable to add block to defective chain!''))"
  by (simp add: addBlock_def validateChain_eq addBlock_after_def addBlock_catch_def Let_def)

subsection \<open>The invariant of the ledgers that the operations build\<close>

lemma list_all_update: "list_all P xs \<Longrightarrow> P y \<Longrightarrow> list_all P (xs[i := y])"
  using set_update_subset_insert[of xs i y] by (auto simp: list_all_iff)

lemma is_genesis_well_owned: "is_genesis b \<Longrightarrow> well_owned b"
  by (simp add: is_genesis_def well_owned_def)

lemma seal_body: "seal D ms block L v = Inr (b4, status) \<Longrightarrow> body b4 = body block"
  by (auto simp: seal_def Let_def split: promise.splits if_splits)

lemma resume_call_ok:
  assumes "call_ok p" and "resume D p L = (p', L')"
  shows "call_ok p'"
proof (cases "stage p")
  case (AwaitResults results)
  with assms show ?thesis
    by (auto simp: resume_def call_ok_def split: promise.splits)
next
  case (AwaitErrors v)
  show ?thesis
  proof (cases "seal D (clock_ms p) (candidate p) L v")
    case (Inl r)
    with assms AwaitErrors show ?thesis by (auto simp: resume_def call_ok_def)
  next
    case (Inr bs)
    obtain b4 status where bs: "bs = (b4, status)" by (cases bs)
    with Inr have "body b4 = body (candidate p)" using seal_body by blast
    with assms(1) have "well_owned b4" by (simp add: call_ok_def well_owned_def)
    with assms AwaitErrors Inr bs show ?thesis by (auto simp: resume_def call_ok_def)
  qed
next
  case (AwaitStatus b4 status)
  with assms show ?thesis
    by (auto simp: resume_def call_ok_def push_def split: if_splits)
next
  case (Settled r)
  with assms show ?thesis by (auto simp: resume_def)
qed

lemma resume_ledger:
  assumes "resume D p L = (p', L')"
  shows "L' = L \<or>
         (\<exists>b4. stage p = AwaitStatus b4 True \<and> L' = L\<lparr>chain := chain L @ [b4], height := height L + 1\<rparr>)"
  using assms
  by (cases "stage p")
     (auto simp: resume_def push_def split: promise.splits sum.splits prod.splits if_splits)

lemma resume_genesis:
  assumes "genesis_pending p" and "chain L = []" and "height L = - 1"
    and "resume D p L = (p', L')"
  shows "(genesis_pending p' \<and> L' = L) \<or>
         (\<exists>b4. is_genesis b4 \<and> L' = L\<lparr>chain := [b4], height := 0\<rparr>)"
proof (cases "stage p")
  case (AwaitResults results)
  with assms show ?thesis
    by (auto simp: genesis_pending_def resume_def resume_validateChain_def)
next
  case (AwaitErrors v)
  with assms show ?thesis
    by (auto simp: genesis_pending_def resume_def seal_def Let_def validate_def new_Block_def
          is_genesis_def)
next
  case (AwaitStatus b4 status)
  with assms show ?thesis
    by (auto simp: genesis_pending_def resume_def push_def)
next
  case (Settled r)
  with assms show ?thesis by (simp add: genesis_pending_def)
qed

lemma genesis_pending_rank: "genesis_pending p \<Longrightarrow> rank (stage p) \<le> 2"
  by (cases "stage p") (auto simp: genesis_pending_def)

lemma config_ok_constructor: "config_ok (Blockchain_constructor D ms)"
  by (simp add: config_ok_def Blockchain_constructor_def call_initializeChain_def Blockchain_new_def
        call_addBlock_def call_ok_def well_owned_def new_Block_def genesis_pending_def)

lemma config_ok_call_initializeChain:
  assumes "config_ok c"
  shows "config_ok (call_initializeChain D ms c)"
proof -
  obtain L ps where c: "c = (L, ps)" by (cases c)
  have new: "call_ok (call_addBlock D ms (new_Block (GenesisData ''Genesis Block'')) L)"
    by (simp add: call_ok_def call_addBlock_def well_owned_def new_Block_def)
  from assms c new show ?thesis
    by (cases "chain L"; cases ps) (auto simp: config_ok_def call_initializeChain_def)
qed

lemma config_ok_call_submitStar:
  assumes "config_ok c" and "rejects_empty_address V"
  shows "config_ok (call_submitStar D V ms ms' address message signature star c)"
proof -
  obtain L ps where c: "c = (L, ps)" by (cases c)
  show ?thesis
  proof (cases "\<not> time_limit_exceeded ms message \<and> V message address signature = Inr True")
    case True
    with assms(2) have "address \<noteq> []" by (auto simp: rejects_empty_address_def)
    then have new: "call_ok (call_addBlock D ms' (new_Block (StarData star address)) L)"
      by (simp add: call_ok_def call_addBlock_def well_owned_def new_Block_def)
    from True have "call_submitStar D V ms ms' address message signature star c =
        (L, ps @ [call_addBlock D ms' (new_Block (StarData star address)) L])"
      by (simp add: call_submitStar_def c)
    with assms(1) c new show ?thesis
      by (cases "chain L"; cases ps) (auto simp: config_ok_def)
  next
    case False
    then have "call_submitStar D V ms ms' address message signature star c = c"
      by (auto simp: call_submitStar_def c split: sum.splits)
    with assms(1) show ?thesis by simp
  qed
qed

lemma config_ok_resume:
  assumes ok: "config_ok (L, ps)" and may: "may_resume ps i" and r: "resume D (ps ! i) L = (p', L')"
  shows "config_ok (L', ps[i := p'])"
proof -
  from may have i: "i < length ps" by (simp add: may_resume_def)
  from ok have calls: "list_all call_ok ps" and blocks: "list_all well_owned (chain L)"
    by (simp_all add: config_ok_def)
  from calls i have pi: "call_ok (ps ! i)" by (simp add: list_all_length)
  then have p': "call_ok p'" using r by (rule resume_call_ok)
  with calls have calls': "list_all call_ok (ps[i := p'])" by (rule list_all_update)
  show ?thesis
  proof (cases "chain L")
    case (Cons g rest)
    with ok have g: "is_genesis g" by (simp add: config_ok_def)
    from resume_ledger[OF r] show ?thesis
    proof
      assume "L' = L"
      with ok calls' Cons show ?thesis by (simp add: config_ok_def)
    next
      assume "\<exists>b4. stage (ps ! i) = AwaitStatus b4 True \<and>
                   L' = L\<lparr>chain := chain L @ [b4], height := height L + 1\<rparr>"
      then obtain b4 where st: "stage (ps ! i) = AwaitStatus b4 True"
        and L': "L' = L\<lparr>chain := chain L @ [b4], height := height L + 1\<rparr>" by blast
      from pi st have "well_owned b4" by (simp add: call_ok_def)
      with blocks calls' Cons g L' show ?thesis by (simp add: config_ok_def)
    qed
  next
    case Nil
    with ok obtain p0 rest0 where ps: "ps = p0 # rest0" and gp: "genesis_pending p0"
      and h: "height L = - 1"
      by (cases ps) (auto simp: config_ok_def)
    show ?thesis
    proof (cases i)
      case 0
      with r ps have r0: "resume D p0 L = (p', L')" by simp
      from resume_genesis[OF gp Nil h r0] show ?thesis
      proof
        assume "genesis_pending p' \<and> L' = L"
        with calls' Nil h ps 0 show ?thesis by (simp add: config_ok_def)
      next
        assume "\<exists>b4. is_genesis b4 \<and> L' = L\<lparr>chain := [b4], height := 0\<rparr>"
        then obtain b4 where "is_genesis b4" and "L' = L\<lparr>chain := [b4], height := 0\<rparr>" by blast
        with calls' show ?thesis by (simp add: config_ok_def is_genesis_well_owned)
      qed
    next
      case (Suc k)
      with may ps have "rank (stage (ps ! i)) < rank (stage p0)"
        by (simp add: may_resume_def)
      with genesis_pending_rank[OF gp] have low: "rank (stage (ps ! i)) < 2" by simp
      have "L' = L"
        using resume_ledger[OF r] low by auto
      with calls' Nil h ps gp Suc show ?thesis by (simp add: config_ok_def)
    qed
  qed
qed

lemma config_ok_fire:
  assumes "config_ok c" and "rejects_empty_address V"
    and "fire D V e c = Some c'"
  shows "config_ok c'"
proof (cases e)
  case (Submit ms ms' address message signature star)
  with assms(3) have "c' = call_submitStar D V ms ms' address message signature star c" by simp
  then show ?thesis using config_ok_call_submitStar[OF assms(1) assms(2)] by simp
next
  case (Initialize ms)
  with assms(3) have "c' = call_initializeChain D ms c" by simp
  then show ?thesis using config_ok_call_initializeChain[OF assms(1)] by simp
next
  case (Resume i)
  obtain L ps where c: "c = (L, ps)" by (cases c)
  with assms(3) Resume have may: "may_resume ps i" by (auto split: if_splits)
  obtain p' L' where r: "resume D (ps ! i) L = (p', L')" by (cases "resume D (ps ! i) L")
  with assms(3) Resume c may have "c' = (L', ps[i := p'])" by auto
  with config_ok_resume[OF _ may r] assms(1) c show ?thesis by simp
qed

lemma config_ok_run:
  assumes "rejects_empty_address V"
  shows "config_ok c \<Longrightarrow> run D V es c = Some c' \<Longrightarrow> config_ok c'"
proof (induction es arbitrary: c)
  case Nil
  then show ?case by simp
next
  case (Cons e es)
  from Cons.prems(2) obtain c1 where f: "fire D V e c = Some c1" and rest: "run D V es c1 = Some c'"
    by (auto split: option.splits)
  from Cons.prems(1) assms f have "config_ok c1" by (rule config_ok_fire)
  then show ?case using rest by (rule Cons.IH)
qed

lemma no_empty_owner:
  "list_all well_owned bs \<Longrightarrow>
   concat (map (\<lambda>b. case getBData b of
                       Inl e \<Rightarrow> []
                     | Inr d \<Rightarrow> if owner d = Some [] then [d] else []) bs) = []"
  by (induction bs) (auto simp: well_owned_def getBData_def split: body.splits)

lemma config_ok_stars:
  assumes "config_ok (L, ps)"
  shows "getStarsByWalletAddress address L = Resolved (getStarsByOwner_spec address L)"
proof (cases "chain L")
  case Nil
  then show ?thesis by (simp add: getStarsByWalletAddress_def getStarsByOwner_spec_def)
next
  case (Cons g rest)
  with assms have g: "getBData g = Inr (GenesisData ''Genesis Block'')"
    and rest: "list_all well_owned rest"
    by (simp_all add: config_ok_def is_genesis_def getBData_def)
  show ?thesis
  proof (cases "address = []")
    case True
    with Cons g no_empty_owner[OF rest] show ?thesis
      by (simp add: getStarsByWalletAddress_def getStarsByOwner_spec_def collect_stars_eq)
  next
    case False
    with Cons g show ?thesis
      by (simp add: getStarsByWalletAddress_def getStarsByOwner_spec_def collect_stars_eq)
  qed
qed

lemma undecodable_skipped:
  "getBData b = Inl e \<Longrightarrow>
   collect_stars address (xs @ b # ys) [] = collect_stars address (xs @ ys) []"
  by (simp add: collect_stars_eq)

subsection \<open>The sample ledgers, evaluated\<close>

lemma currentTime_samples:
  "currentTime_string 999000 = ''999''"
  "currentTime_string 1000000 = ''1000''"
  by (simp_all add: currentTime_string_def dec.simps digit_char_def)

lemma message_time_samples:
  "message_time ''A:1000:starRegistry'' = Num 1000"
  "message_time '':1000:starRegistry'' = Num 1000"
  "message_time ''A:99999999999:starRegistry'' = Num 99999999999"
  "message_time ''hello'' = NaN"
  by (simp_all add: message_time_def js_index_def parseInt_def parseInt_str_def is_ws_def
        in_radix_def digit_of_def digits_value_def)

lemma sample_ledger1_eq:
  "sample_ledger1 =
     \<lparr>chain = [\<lparr>hash = Some ''#999/null'', Block.height = 0,
                 body = Encoded (GenesisData ''Genesis Block''), time = ''999'',
                 previousBlockHash = None\<rparr>],
      height = 0\<rparr>"
  by (simp add: sample_ledger1_def construct_eq new_Block_def sample_digest_def show_hash_def
        currentTime_samples)

lemma sample_ledger2_eq:
  "sample_ledger2 =
     \<lparr>chain = [\<lparr>hash = Some ''#999/null'', Block.height = 0,
                 body = Encoded (GenesisData ''Genesis Block''), time = ''999'',
                 previousBlockHash = None\<rparr>,
               \<lparr>hash = Some ''#1000/#999/null'', Block.height = 1,
                 body = Encoded (StarData ''star1'' ''A''), time = ''1000'',
                 previousBlockHash = Some ''#999/null''\<rparr>],
      height = 1\<rparr>"
  by (simp add: sample_ledger2_def sample_ledger1_eq submitStar_def
        time_limit_exceeded_Num[OF message_time_samples(1)] verify_and_add_def sample_verify_def
        addBlock_def validateChain_eq validate_def sample_digest_def addBlock_after_def Let_def
        new_Block_def show_hash_def currentTime_samples)

lemma sample_tampered_eq:
  "sample_tampered =
     \<lparr>chain = [\<lparr>hash = Some ''#999/null'', Block.height = 0,
                 body = Encoded (GenesisData ''Genesis Block''), time = ''0'',
                 previousBlockHash = None\<rparr>],
      height = 0\<rparr>"
  by (simp add: sample_tampered_def sample_ledger1_eq)

subsection \<open>The sample runs, evaluated\<close>

lemmas run_simps =
  may_resume_def resume_def Blockchain_constructor_def call_initializeChain_def
  call_submitStar_def call_addBlock_def resume_validateChain_def block_in_scope_def
  seal_def push_def validate_def sample_digest_def sample_verify_def show_hash_def
  new_Block_def Blockchain_new_def Let_def currentTime_samples

lemma message_time_sample_B: "message_time ''B:1000:starRegistry'' = Num 1000"
  by (simp add: message_time_def js_index_def parseInt_def parseInt_str_def is_ws_def
        in_radix_def digit_of_def digits_value_def)

lemma race_with_constructor_eq:
  "race_with_constructor =
     Some (\<lparr>chain =
              [\<lparr>hash = Some ''#999/null'', Block.height = 0,
                 body = Encoded (GenesisData ''Genesis Block''), time = ''999'',
                 previousBlockHash = None\<rparr>,
               \<lparr>hash = Some ''#1000/null'', Block.height = 0,
                 body = Encoded (StarData ''star1'' ''A''), time = ''1000'',
                 previousBlockHash = None\<rparr>],
            height = 1\<rparr>,
           [\<lparr>candidate = new_Block (GenesisData ''Genesis Block''), clock_ms = 999000,
              stage = Settled (Resolved
                \<lparr>hash = Some ''#999/null'', Block.height = 0,
                  body = Encoded (GenesisData ''Genesis Block''), time = ''999'',
                  previousBlockHash = None\<rparr>)\<rparr>,
            \<lparr>candidate = new_Block (StarData ''star1'' ''A''), clock_ms = 1000000,
              stage = Settled (Resolved
                \<lparr>hash = Some ''#1000/null'', Block.height = 0,
                  body = Encoded (StarData ''star1'' ''A''), time = ''1000'',
                  previousBlockHash = None\<rparr>)\<rparr>])"
  unfolding race_with_constructor_def
  by (simp add: run_simps time_limit_exceeded_Num[OF message_time_samples(1)])

lemma race_of_two_submissions_eq:
  "race_of_two_submissions =
     Some (\<lparr>chain =
              [\<lparr>hash = Some ''#999/null'', Block.height = 0,
                 body = Encoded (GenesisData ''Genesis Block''), time = ''999'',
                 previousBlockHash = None\<rparr>,
               \<lparr>hash = Some ''#1000/#999/null'', Block.height = 1,
                 body = Encoded (StarData ''star1'' ''A''), time = ''1000'',
                 previousBlockHash = Some ''#999/null''\<rparr>,
               \<lparr>hash = Some ''#1000/#999/null'', Block.height = 1,
                 body = Encoded (StarData ''star2'' ''B''), time = ''1000'',
                 previousBlockHash = Some ''#999/null''\<rparr>],
            height = 2\<rparr>,
           [\<lparr>candidate = new_Block (GenesisData ''Genesis Block''), clock_ms = 999000,
              stage = Settled (Resolved
                \<lparr>hash = Some ''#999/null'', Block.height = 0,
                  body = Encoded (GenesisData ''Genesis Block''), time = ''999'',
                  previousBlockHash = None\<rparr>)\<rparr>,
            \<lparr>candidate = new_Block (StarData ''star1'' ''A''), clock_ms = 1000000,
              stage = Settled (Resolved
                \<lparr>hash = Some ''#1000/#999/null'', Block.height = 1,
                  body = Encoded (StarData ''star1'' ''A''), time = ''1000'',
                  previousBlockHash = Some ''#999/null''\<rparr>)\<rparr>,
            \<lparr>candidate = new_Block (StarData ''star2'' ''B''), clock_ms = 1000000,
              stage = Settled (Resolved
                \<lparr>hash = Some ''#1000/#999/null'', Block.height = 1,
                  body = Encoded (StarData ''star2'' ''B''), time = ''1000'',
                  previousBlockHash = Some ''#999/null''\<rparr>)\<rparr>])"
  unfolding race_of_two_submissions_def
  by (simp add: run_simps time_limit_exceeded_Num[OF message_time_samples(1)]
        time_limit_exceeded_Num[OF message_time_sample_B])

lemma three_submissions_eq:
  "three_submissions =
     Some (\<lparr>chain =
              [\<lparr>hash = Some ''#999/null'', Block.height = 0,
                 body = Encoded (GenesisData ''Genesis Block''), time = ''999'',
                 previousBlockHash = None\<rparr>,
               \<lparr>hash = Some ''#1000/null'', Block.height = 0,
                 body = Encoded (StarData ''star1'' ''A''), time = ''1000'',
                 previousBlockHash = None\<rparr>,
               \<lparr>hash = Some ''#1000/null'', Block.height = 0,
                 body = Encoded (StarData ''star2'' ''B''), time = ''1000'',
                 previousBlockHash = None\<rparr>,
               \<lparr>hash = Some ''#1000/null'', Block.height = 0,
                 body = Encoded (StarData ''star3'' ''A''), time = ''1000'',
                 previousBlockHash = None\<rparr>],
            height = 3\<rparr>,
           [\<lparr>candidate = new_Block (GenesisData ''Genesis Block''), clock_ms = 999000,
              stage = Settled (Resolved
                \<lparr>hash = Some ''#999/null'', Block.height = 0,
                  body = Encoded (GenesisData ''Genesis Block''), time = ''999'',
                  previousBlockHash = None\<rparr>)\<rparr>,
            \<lparr>candidate = new_Block (StarData ''star1'' ''A''), clock_ms = 1000000,
              stage = Settled (Resolved
                \<lparr>hash = Some ''#1000/null'', Block.height = 0,
                  body = Encoded (StarData ''star1'' ''A''), time = ''1000'',
                  previousBlockHash = None\<rparr>)\<rparr>,
            \<lparr>candidate = new_Block (StarData ''star2'' ''B''), clock_ms = 1000000,
              stage = Settled (Resolved
                \<lparr>hash = Some ''#1000/null'', Block.height = 0,
                  body = Encoded (StarData ''star2'' ''B''), time = ''1000'',
                  previousBlockHash = None\<rparr>)\<rparr>,
            \<lparr>candidate = new_Block (StarData ''star3'' ''A''), clock_ms = 1000000,
              stage = Settled (Resolved
                \<lparr>hash = Some ''#1000/null'', Block.height = 0,
                  body = Encoded (StarData ''star3'' ''A''), time = ''1000'',
                  previousBlockHash = None\<rparr>)\<rparr>])"
  unfolding three_submissions_def
  by (simp add: run_simps time_limit_exceeded_Num[OF message_time_samples(1)]
        time_limit_exceeded_Num[OF message_time_sample_B])

section \<open>The claims\<close>

text \<open>
  C1 (code defect). The claim: \<^verbatim>\<open>validateChain\<close> always resolves, with a list of
  errors that is empty exactly when every block validates and every link holds. The code
  does not do that: on the sample ledger of two sealed, correctly linked blocks the
  promise never settles, because the second loop reads the unbound name \<^verbatim>\<open>block\<close>
  at index 1; and on a one-block ledger whose block fails validation it never settles
  either, instead of resolving with one error entry.
\<close>

theorem validateChain_never_settles:
  "list_all (validate sample_digest) (chain sample_ledger2) \<and>
   linked (chain sample_ledger2) \<and>
   validateChain sample_digest sample_ledger2 = NeverSettles (ReferenceError ''block is not defined'') \<and>
   \<not> list_all (validate sample_digest) (chain sample_tampered) \<and>
   validateChain sample_digest sample_tampered = NeverSettles (ReferenceError ''block is not defined'')"
  by (simp add: validateChain_def block_in_scope_def
        sample_ledger2_eq sample_tampered_eq validate_def sample_digest_def show_hash_def)

text \<open>
  C2 (code defect). The claim: when the revalidation before an append finds an error,
  the append fails with an error that carries what was found, and the ledger is
  unchanged. The code does not do that: on the sample ledger whose block was altered
  after sealing, the revalidation never settles, so the append neither fails nor
  succeeds, although lines 69 to 72 are there to reject it. The defect is the one of
  C1; the ledger is indeed unchanged.
\<close>

theorem append_on_corrupted_chain_hangs:
  "\<not> list_all (validate sample_digest) (chain sample_tampered) \<and>
   addBlock sample_digest 1000000 (new_Block (StarData ''star1'' ''A'')) sample_tampered =
     (NeverSettles (ReferenceError ''block is not defined''), sample_tampered)"
  by (simp add: addBlock_def validateChain_def block_in_scope_def addBlock_after_def
        sample_tampered_eq validate_def sample_digest_def show_hash_def)

text \<open>
  C3 (code defect). The claim: a message that does not split into address, timestamp
  and tag with a parseable timestamp makes \<^verbatim>\<open>submitStar\<close> fail. The code does
  not do that: for the message "hello" the second field is \<^verbatim>\<open>undefined\<close>, the
  time is \<^verbatim>\<open>NaN\<close>, the expiry test is false, and with a signature that verifies the
  star is appended.
\<close>

theorem malformed_message_accepted:
  "message_time ''hello'' = NaN \<and>
   submitStar sample_digest sample_verify 1000000 1000000 ''A'' ''hello'' ''A/hello'' ''star1'' sample_ledger1 =
     (Resolved \<lparr>hash = Some ''#1000/#999/null'', Block.height = 1,
                body = Encoded (StarData ''star1'' ''A''), time = ''1000'',
                previousBlockHash = Some ''#999/null''\<rparr>,
      sample_ledger2)"
  by (simp add: message_time_samples sample_ledger2_eq sample_ledger1_eq submitStar_def
        time_limit_exceeded_NaN verify_and_add_def sample_verify_def
        addBlock_def validateChain_eq validate_def sample_digest_def addBlock_after_def Let_def
        new_Block_def show_hash_def currentTime_samples)

text \<open>
  C4. For a message whose second field parses to the time \<open>t\<close>: when the clock in whole
  seconds minus \<open>t\<close> exceeds 300, \<^verbatim>\<open>submitStar\<close> is rejected for the expired
  challenge and leaves the ledger alone, whatever the signature primitive \<open>V\<close> would
  answer or throw (it is not consulted); when the difference is at most 300, and so at
  exactly 300, that rejection does not occur. Every challenge issued by the ledger is
  such a message (\<open>issued_challenge_time\<close>).
\<close>

theorem challenge_expiry:
  assumes "message_time message = Num t"
  shows "(300 < int (ms div 1000) - t \<longrightarrow>
            submitStar D V ms ms' address message signature star L =
              (Rejected (Str ''Cannot verify message as the time limit is exceeded''), L)) \<and>
         (int (ms div 1000) - t \<le> 300 \<longrightarrow>
            fst (submitStar D V ms ms' address message signature star L) \<noteq>
              Rejected (Str ''Cannot verify message as the time limit is exceeded''))"
  using assms verify_and_add_not_expiry[of D V ms' address message signature star L]
  by (simp add: submitStar_def time_limit_exceeded_Num)

theorem challenge_expiry_witness:
  "message_time ''A:1000:starRegistry'' = Num 1000 \<and>
   submitStar sample_digest sample_verify 1301000 1301000
       ''A'' ''A:1000:starRegistry'' ''A/A:1000:starRegistry'' ''star1'' sample_ledger1 =
     (Rejected (Str ''Cannot verify message as the time limit is exceeded''), sample_ledger1) \<and>
   fst (submitStar sample_digest sample_verify 1300000 1300000
          ''A'' ''A:1000:starRegistry'' ''A/A:1000:starRegistry'' ''star1'' sample_ledger1) \<noteq>
     Rejected (Str ''Cannot verify message as the time limit is exceeded'')"
  using
    challenge_expiry[OF message_time_samples(1), where ms = 1301000 and ms' = 1301000
      and D = sample_digest and V = sample_verify and address = "''A''"
      and signature = "''A/A:1000:starRegistry''" and star = "''star1''" and L = sample_ledger1]
    challenge_expiry[OF message_time_samples(1), where ms = 1300000 and ms' = 1300000
      and D = sample_digest and V = sample_verify and address = "''A''"
      and signature = "''A/A:1000:starRegistry''" and star = "''star1''" and L = sample_ledger1]
  by (simp add: message_time_samples)

text \<open>
  C5. For every ledger that the operations build, starting with
  \<^verbatim>\<open>new Blockchain()\<close> and in whatever order the appends in flight take their
  turns, given a signature primitive that accepts nothing for the empty address, and for
  every address: the array that \<^verbatim>\<open>getStarsByWalletAddress\<close> resolves with holds
  exactly the decoded payloads of the blocks after index 0 whose decoded owner equals
  the address, in chain order. And on any chain whatever, a block that does not decode
  adds nothing and takes nothing away: the blocks around it are scanned as if it were
  not there.
\<close>

theorem stars_by_owner:
  assumes "run D V es (Blockchain_constructor D ms) = Some (L, ps)"
    and "rejects_empty_address V"
  shows "getStarsByWalletAddress address L = Resolved (getStarsByOwner_spec address L) \<and>
         (\<forall>K xs b ys e. getBData b = Inl e \<longrightarrow>
            getStarsByWalletAddress address (K\<lparr>chain := xs @ b # ys\<rparr>) =
            getStarsByWalletAddress address (K\<lparr>chain := xs @ ys\<rparr>))"
proof -
  have "config_ok (L, ps)"
    using config_ok_run[OF assms(2) config_ok_constructor assms(1)] .
  then have "getStarsByWalletAddress address L = Resolved (getStarsByOwner_spec address L)"
    by (rule config_ok_stars)
  moreover have "\<forall>K xs b ys e. getBData b = Inl e \<longrightarrow>
            getStarsByWalletAddress address (K\<lparr>chain := xs @ b # ys\<rparr>) =
            getStarsByWalletAddress address (K\<lparr>chain := xs @ ys\<rparr>)"
    by (simp add: getStarsByWalletAddress_def undecodable_skipped)
  ultimately show ?thesis by blast
qed

theorem stars_by_owner_witness:
  "rejects_empty_address sample_verify \<and>
   three_submissions \<noteq> None \<and>
   (case three_submissions of
      None \<Rightarrow> False
    | Some (L, ps) \<Rightarrow>
        getStarsByWalletAddress ''A'' L = Resolved [StarData ''star1'' ''A'', StarData ''star3'' ''A''] \<and>
        getStarsByWalletAddress ''B'' L = Resolved [StarData ''star2'' ''B'']) \<and>
   getBData (chain sample_mixed ! 2) = Inl (Error ''DecodeError'') \<and>
   getStarsByWalletAddress ''A'' sample_mixed =
     Resolved [StarData ''s1'' ''A'', StarData ''s3'' ''A'']"
proof -
  have v: "rejects_empty_address sample_verify"
    by (simp add: rejects_empty_address_def sample_verify_def)
  let ?L = "\<lparr>chain =
              [\<lparr>hash = Some ''#999/null'', Block.height = 0,
                 body = Encoded (GenesisData ''Genesis Block''), time = ''999'',
                 previousBlockHash = None\<rparr>,
               \<lparr>hash = Some ''#1000/null'', Block.height = 0,
                 body = Encoded (StarData ''star1'' ''A''), time = ''1000'',
                 previousBlockHash = None\<rparr>,
               \<lparr>hash = Some ''#1000/null'', Block.height = 0,
                 body = Encoded (StarData ''star2'' ''B''), time = ''1000'',
                 previousBlockHash = None\<rparr>,
               \<lparr>hash = Some ''#1000/null'', Block.height = 0,
                 body = Encoded (StarData ''star3'' ''A''), time = ''1000'',
                 previousBlockHash = None\<rparr>],
            height = 3\<rparr>"
  obtain ps where r: "three_submissions = Some (?L, ps)"
    using three_submissions_eq by simp
  note t = stars_by_owner[OF r[unfolded three_submissions_def] v]
  have spec: "getStarsByOwner_spec ''A'' ?L = [StarData ''star1'' ''A'', StarData ''star3'' ''A'']"
    "getStarsByOwner_spec ''B'' ?L = [StarData ''star2'' ''B'']"
    by (simp_all add: getStarsByOwner_spec_def getBData_def)
  have d: "getBData (chain sample_mixed ! 2) = Inl (Error ''DecodeError'')"
    by (simp add: sample_mixed_def getBData_def new_Block_def)
  have m: "getStarsByWalletAddress ''A'' sample_mixed =
             Resolved [StarData ''s1'' ''A'', StarData ''s3'' ''A'']"
    by (simp add: getStarsByWalletAddress_def sample_mixed_def getBData_def new_Block_def)
  have a: "getStarsByWalletAddress ''A'' ?L = Resolved [StarData ''star1'' ''A'', StarData ''star3'' ''A'']"
    using t[of "''A''"] spec(1) by simp
  have b: "getStarsByWalletAddress ''B'' ?L = Resolved [StarData ''star2'' ''B'']"
    using t[of "''B''"] spec(2) by simp
  show ?thesis
    unfolding r using v a b d m by simp
qed

text \<open>
  C6 (code defect). The claim: after any sequence of successful appends, every block
  above index 0 holds the hash of the block before it as its previous hash. The code
  does not do that when an append is called while another is in flight:
  \<^verbatim>\<open>submitStar\<close> called right after \<^verbatim>\<open>new Blockchain()\<close> reads the height
  -1 before the genesis block is pushed, so both appends resolve and the star is stored
  at index 1 with the empty sentinel as its previous hash.
\<close>

theorem race_breaks_hash_chain:
  "map_option (chain \<circ> fst) race_with_constructor =
     Some [\<lparr>hash = Some ''#999/null'', Block.height = 0,
             body = Encoded (GenesisData ''Genesis Block''), time = ''999'',
             previousBlockHash = None\<rparr>,
           \<lparr>hash = Some ''#1000/null'', Block.height = 0,
             body = Encoded (StarData ''star1'' ''A''), time = ''1000'',
             previousBlockHash = None\<rparr>] \<and>
   map_option (map stage \<circ> snd) race_with_constructor =
     Some [Settled (Resolved
             \<lparr>hash = Some ''#999/null'', Block.height = 0,
               body = Encoded (GenesisData ''Genesis Block''), time = ''999'',
               previousBlockHash = None\<rparr>),
           Settled (Resolved
             \<lparr>hash = Some ''#1000/null'', Block.height = 0,
               body = Encoded (StarData ''star1'' ''A''), time = ''1000'',
               previousBlockHash = None\<rparr>)] \<and>
   (case race_with_constructor of
      None \<Rightarrow> False
    | Some (L, ps) \<Rightarrow> previousBlockHash (chain L ! 1) \<noteq> hash (chain L ! 0))"
  by (simp add: race_with_constructor_eq)

text \<open>
  C7 (code defect). The claim: the height field is the number of blocks minus one, the
  block at index \<open>i\<close> has height \<open>i\<close>, and a height of -1 is never observable once
  the ledger is constructed. The code does not do that: the constructor returns with
  the height -1, which \<^verbatim>\<open>getChainHeight\<close> then resolves with; and two
  submissions called in a row on the constructed ledger both read the chain length 1,
  both resolve, and leave a block of height 1 at index 2.
\<close>

theorem race_breaks_height_invariant:
  "getChainHeight (fst (Blockchain_constructor sample_digest 999000)) = Resolved (- 1) \<and>
   map_option (map stage \<circ> snd) race_of_two_submissions =
     Some [Settled (Resolved
             \<lparr>hash = Some ''#999/null'', Block.height = 0,
               body = Encoded (GenesisData ''Genesis Block''), time = ''999'',
               previousBlockHash = None\<rparr>),
           Settled (Resolved
             \<lparr>hash = Some ''#1000/#999/null'', Block.height = 1,
               body = Encoded (StarData ''star1'' ''A''), time = ''1000'',
               previousBlockHash = Some ''#999/null''\<rparr>),
           Settled (Resolved
             \<lparr>hash = Some ''#1000/#999/null'', Block.height = 1,
               body = Encoded (StarData ''star2'' ''B''), time = ''1000'',
               previousBlockHash = Some ''#999/null''\<rparr>)] \<and>
   map_option (map Block.height \<circ> chain \<circ> fst) race_of_two_submissions = Some [0, 1, 1] \<and>
   map_option (height \<circ> fst) race_of_two_submissions = Some 2 \<and>
   (case race_of_two_submissions of
      None \<Rightarrow> False
    | Some (L, ps) \<Rightarrow> Block.height (chain L ! 2) \<noteq> 2)"
  by (simp add: race_of_two_submissions_eq getChainHeight_def Blockchain_constructor_def
        call_initializeChain_def Blockchain_new_def)


text \<open>
  C9. For a message whose second field parses to a time at most 300 seconds before the
  clock, and a signature for which the primitive answers false, \<^verbatim>\<open>submitStar\<close> is
  rejected for the failed verification and the ledger, its height included, is unchanged.
\<close>

theorem signature_gate:
  assumes "message_time message = Num t"
    and "int (ms div 1000) - t \<le> 300"
    and "V message address signature = Inr False"
  shows "submitStar D V ms ms' address message signature star L =
           (Rejected (Str ''Message verification failed''), L) \<and>
         height (snd (submitStar D V ms ms' address message signature star L)) = height L"
  using assms by (simp add: submitStar_def time_limit_exceeded_Num verify_and_add_def)

theorem signature_gate_witness:
  "message_time ''A:1000:starRegistry'' = Num 1000 \<and>
   int (1000000 div 1000) - 1000 \<le> 300 \<and>
   sample_verify ''A:1000:starRegistry'' ''A'' ''forged'' = Inr False \<and>
   submitStar sample_digest sample_verify 1000000 1000000
       ''A'' ''A:1000:starRegistry'' ''forged'' ''star1'' sample_ledger1 =
     (Rejected (Str ''Message verification failed''), sample_ledger1)"
proof -
  have v: "sample_verify ''A:1000:starRegistry'' ''A'' ''forged'' = Inr False"
    by (simp add: sample_verify_def)
  have e: "int (1000000 div 1000) - 1000 \<le> 300" by simp
  show ?thesis
    using v e message_time_samples(1)
      signature_gate[where message = "''A:1000:starRegistry''" and t = 1000 and ms = 1000000
        and V = sample_verify and address = "''A''" and signature = "''forged''"
        and D = sample_digest and ms' = 1000000 and star = "''star1''" and L = sample_ledger1]
    by simp
qed

text \<open>
  C10. The expiry test has no lower bound: for a message whose second field parses to a
  time after the clock, the test is false, the rejection for an expired challenge does
  not occur, and \<^verbatim>\<open>submitStar\<close> is exactly the signature check followed by the
  append.
\<close>

theorem expiry_has_no_lower_bound:
  assumes "message_time message = Num t" and "int (ms div 1000) < t"
  shows "\<not> time_limit_exceeded ms message \<and>
         submitStar D V ms ms' address message signature star L =
           verify_and_add D V ms' address message signature star L \<and>
         fst (submitStar D V ms ms' address message signature star L) \<noteq>
           Rejected (Str ''Cannot verify message as the time limit is exceeded'')"
  using assms verify_and_add_not_expiry[of D V ms' address message signature star L]
  by (simp add: submitStar_def time_limit_exceeded_Num)

theorem expiry_has_no_lower_bound_witness:
  "message_time ''A:99999999999:starRegistry'' = Num 99999999999 \<and>
   int (1000000 div 1000) < 99999999999 \<and>
   \<not> time_limit_exceeded 1000000 ''A:99999999999:starRegistry'' \<and>
   submitStar sample_digest sample_verify 1000000 1000000
       ''A'' ''A:99999999999:starRegistry'' ''A/A:99999999999:starRegistry'' ''star1'' sample_ledger1 =
     verify_and_add sample_digest sample_verify 1000000
       ''A'' ''A:99999999999:starRegistry'' ''A/A:99999999999:starRegistry'' ''star1'' sample_ledger1"
proof -
  have f: "int (1000000 div 1000) < 99999999999" by simp
  show ?thesis
    using f expiry_has_no_lower_bound[OF message_time_samples(3) f, where D = sample_digest
        and V = sample_verify and ms' = 1000000 and address = "''A''"
        and signature = "''A/A:99999999999:starRegistry''" and star = "''star1''"
        and L = sample_ledger1]
    by (simp add: message_time_samples)
qed

end
